theory Spec2Isabelle
  imports Complex_Main
begin

section \<open>Python values and the library functions the connector calls\<close>

text \<open>
  The connector (\<^verbatim>\<open>backend/integrations/hubspot.py\<close>) works on decoded JSON: the token
  response, the stored credential, the listing response and each contact record are
  whatever \<^verbatim>\<open>json.loads\<close> / \<^verbatim>\<open>response.json()\<close> produced. A dict is an association
  list in insertion order, looked up with \<open>map_of\<close>. Floats are carried as reals
  (\<^verbatim>\<open>nan\<close> and the infinities are not represented); a string is the list of the bytes of
  its UTF-8 encoding.
\<close>

datatype json =
    JNull
  | JBool bool
  | JInt int
  | JFloat real
  | JStr string
  | JArr "json list"
  | JObj "(string \<times> json) list"

text \<open>
  Exceptions the module's code can meet. \<open>AttributeError t a\<close>: an object of Python type
  \<open>t\<close> has no attribute \<open>a\<close>; \<open>TypeError_not_iterable t\<close>: iteration over, or \<^verbatim>\<open>in\<close>
  on, an object of type \<open>t\<close>; \<open>ValueError_isoformat s\<close>: \<^verbatim>\<open>datetime.fromisoformat(s)\<close>
  rejected \<open>s\<close>; \<open>ValueError m\<close>: any other \<^verbatim>\<open>ValueError\<close> that is not a
  \<^verbatim>\<open>JSONDecodeError\<close> (the JSON decoder raises one for an integer literal beyond the
  digit limit, or for bytes that are no UTF-8); \<open>RecursionError\<close>: the decoder on too deep
  a nesting; \<open>HTTPStatusError text\<close>: raised by \<^verbatim>\<open>raise_for_status()\<close>, with
  \<^verbatim>\<open>e.response.text\<close>; \<open>RequestError m\<close>: \<^verbatim>\<open>httpx.RequestError\<close> (connection,
  timeout), which is not an \<^verbatim>\<open>HTTPStatusError\<close>.
\<close>

datatype py_exception =
    JSONDecodeError
  | AttributeError string string
  | TypeError_not_iterable string
  | ValueError_isoformat string
  | ValueError string
  | RecursionError
  | HTTPStatusError string
  | RequestError string

text \<open>A call either returns a value or lets an exception leave the function.\<close>

datatype 'a outcome = Return 'a | Raise py_exception

text \<open>
  The text of an \<^verbatim>\<open>{"error": ...}\<close> dict: a fixed or provider-supplied text, or
  \<^verbatim>\<open>str(e)\<close> of a caught exception (kept as the exception itself).
\<close>

datatype error_message = Text string | Str_of py_exception

datatype 'a reply = Error error_message | Ok 'a

text \<open>
  Library functions that are no part of the repository are parameters of the model:
  \<^verbatim>\<open>json.loads\<close> (the decoded value, or the exception it raises: a
  \<^verbatim>\<open>JSONDecodeError\<close>, or one of the others above), \<^verbatim>\<open>json.dumps\<close>,
  \<^verbatim>\<open>datetime.fromisoformat\<close> (\<open>None\<close> is \<^verbatim>\<open>ValueError\<close>; \<open>'t\<close> is the datetime
  type) and \<^verbatim>\<open>repr\<close> of floats, lists and dicts.
\<close>

record 't library =
  json_loads :: "string \<Rightarrow> py_exception + json"
  json_dumps :: "json \<Rightarrow> string"
  fromisoformat :: "string \<Rightarrow> 't option"
  repr :: "json \<Rightarrow> string"

fun type_name :: "json \<Rightarrow> string" where
  "type_name JNull = ''NoneType''"
| "type_name (JBool b) = ''bool''"
| "type_name (JInt i) = ''int''"
| "type_name (JFloat r) = ''float''"
| "type_name (JStr s) = ''str''"
| "type_name (JArr xs) = ''list''"
| "type_name (JObj kvs) = ''dict''"

text \<open>\<^verbatim>\<open>d.get(key, dflt)\<close> on a dict, and on any object: only a dict has the method.\<close>

definition dict_get :: "(string \<times> json) list \<Rightarrow> string \<Rightarrow> json \<Rightarrow> json" where
  "dict_get kvs key dflt = (case map_of kvs key of None \<Rightarrow> dflt | Some v \<Rightarrow> v)"

fun py_get :: "json \<Rightarrow> string \<Rightarrow> json \<Rightarrow> py_exception + json" where
  "py_get (JObj kvs) key dflt = Inr (dict_get kvs key dflt)"
| "py_get v key dflt = Inl (AttributeError (type_name v) ''get'')"

text \<open>
  \<^verbatim>\<open>key in v\<close> for a string \<open>key\<close>: a key of a dict, an element of a list, a substring
  of a string; a \<^verbatim>\<open>TypeError\<close> on anything else.
\<close>

fun is_prefix :: "string \<Rightarrow> string \<Rightarrow> bool" where
  "is_prefix [] ys = True"
| "is_prefix (x # xs) [] = False"
| "is_prefix (x # xs) (y # ys) = (x = y \<and> is_prefix xs ys)"

fun is_substring :: "string \<Rightarrow> string \<Rightarrow> bool" where
  "is_substring xs [] = (xs = [])"
| "is_substring xs (y # ys) = (is_prefix xs (y # ys) \<or> is_substring xs ys)"

fun py_in :: "string \<Rightarrow> json \<Rightarrow> py_exception + bool" where
  "py_in key (JObj kvs) = Inr (map_of kvs key \<noteq> None)"
| "py_in key (JArr xs) = Inr (JStr key \<in> set xs)"
| "py_in key (JStr s) = Inr (is_substring key s)"
| "py_in key v = Inl (TypeError_not_iterable (type_name v))"

text \<open>Truth value of an object, as \<^verbatim>\<open>if not x\<close> tests it.\<close>

fun truthy :: "json \<Rightarrow> bool" where
  "truthy JNull = False"
| "truthy (JBool b) = b"
| "truthy (JInt i) = (i \<noteq> 0)"
| "truthy (JFloat r) = (r \<noteq> 0)"
| "truthy (JStr s) = (s \<noteq> [])"
| "truthy (JArr xs) = (xs \<noteq> [])"
| "truthy (JObj kvs) = (kvs \<noteq> [])"

text \<open>
  The characters of a string: in UTF-8 a byte from \<^verbatim>\<open>0x80\<close> to \<^verbatim>\<open>0xBF\<close> continues the
  character begun before it.
\<close>

definition byte :: "char \<Rightarrow> nat" where
  "byte c = of_char c"

definition continuation :: "char \<Rightarrow> bool" where
  "continuation c = (0x80 \<le> byte c \<and> byte c < 0xC0)"

fun characters :: "string \<Rightarrow> string list" where
  "characters [] = []"
| "characters (c # cs) =
     (case characters cs of
        [] \<Rightarrow> [[c]]
      | x # xs \<Rightarrow> if list_ex continuation (take 1 x) then (c # x) # xs else [c] # x # xs)"

text \<open>\<^verbatim>\<open>for x in v\<close>: the elements of a list, the keys of a dict, the characters of a string.\<close>

fun py_iter :: "json \<Rightarrow> py_exception + json list" where
  "py_iter (JArr xs) = Inr xs"
| "py_iter (JObj kvs) = Inr (map (\<lambda>kv. JStr (fst kv)) kvs)"
| "py_iter (JStr s) = Inr (map JStr (characters s))"
| "py_iter v = Inl (TypeError_not_iterable (type_name v))"

text \<open>\<^verbatim>\<open>str(x)\<close> as an f-string renders it.\<close>

fun show_nat :: "nat \<Rightarrow> string" where
  "show_nat n =
     (if n < 10 then [''0123456789'' ! n]
      else show_nat (n div 10) @ [''0123456789'' ! (n mod 10)])"

definition show_int :: "int \<Rightarrow> string" where
  "show_int i = (if i < 0 then CHR ''-'' # show_nat (nat (- i)) else show_nat (nat i))"

fun py_str :: "'t library \<Rightarrow> json \<Rightarrow> string" where
  "py_str lib (JStr s) = s"
| "py_str lib JNull = ''None''"
| "py_str lib (JBool b) = (if b then ''True'' else ''False'')"
| "py_str lib (JInt i) = show_int i"
| "py_str lib v = repr lib v"

text \<open>
  \<^verbatim>\<open>s.split(c)\<close> for a one-character separator: a character other than \<open>c\<close> joins
  the first part of what follows it. The result is never the empty list, so the last
  case below is never taken.
\<close>

fun split_py :: "char \<Rightarrow> string \<Rightarrow> string list" where
  "split_py c [] = [[]]"
| "split_py c (x # xs) =
     (if x = c then [] # split_py c xs
      else (case split_py c xs of
              p # ps \<Rightarrow> (x # p) # ps
            | [] \<Rightarrow> [[x]]))"

text \<open>\<^verbatim>\<open>s.replace("Z", "+00:00")\<close>: every \<^verbatim>\<open>Z\<close>, not only a trailing one.\<close>

definition replace_Z :: "string \<Rightarrow> string" where
  "replace_Z s = concat (map (\<lambda>c. if c = CHR ''Z'' then ''+00:00'' else [c]) s)"

text \<open>
  \<^verbatim>\<open>s.strip()\<close> removes the characters for which \<^verbatim>\<open>str.isspace\<close> holds from both ends;
  \<open>white_space\<close> lists them in UTF-8: the ASCII ones, then U+0085, U+00A0, U+1680,
  U+2000 to U+200A, U+2028, U+2029, U+202F, U+205F and U+3000.
\<close>

definition white_space :: "string list" where
  "white_space =
     [[CHR 0x09], [CHR 0x0A], [CHR 0x0B], [CHR 0x0C], [CHR 0x0D],
      [CHR 0x1C], [CHR 0x1D], [CHR 0x1E], [CHR 0x1F], [CHR 0x20],
      [CHR 0xC2, CHR 0x85], [CHR 0xC2, CHR 0xA0], [CHR 0xE1, CHR 0x9A, CHR 0x80],
      [CHR 0xE2, CHR 0x80, CHR 0x80], [CHR 0xE2, CHR 0x80, CHR 0x81],
      [CHR 0xE2, CHR 0x80, CHR 0x82], [CHR 0xE2, CHR 0x80, CHR 0x83],
      [CHR 0xE2, CHR 0x80, CHR 0x84], [CHR 0xE2, CHR 0x80, CHR 0x85],
      [CHR 0xE2, CHR 0x80, CHR 0x86], [CHR 0xE2, CHR 0x80, CHR 0x87],
      [CHR 0xE2, CHR 0x80, CHR 0x88], [CHR 0xE2, CHR 0x80, CHR 0x89],
      [CHR 0xE2, CHR 0x80, CHR 0x8A], [CHR 0xE2, CHR 0x80, CHR 0xA8],
      [CHR 0xE2, CHR 0x80, CHR 0xA9], [CHR 0xE2, CHR 0x80, CHR 0xAF],
      [CHR 0xE2, CHR 0x81, CHR 0x9F], [CHR 0xE3, CHR 0x80, CHR 0x80]]"

fun lstrip_with :: "string list \<Rightarrow> string \<Rightarrow> string" where
  "lstrip_with ws (a # b # c # s) =
     (if [a] \<in> set ws then lstrip_with ws (b # c # s)
      else if [a, b] \<in> set ws then lstrip_with ws (c # s)
      else if [a, b, c] \<in> set ws then lstrip_with ws s
      else a # b # c # s)"
| "lstrip_with ws [a, b] =
     (if [a] \<in> set ws then lstrip_with ws [b]
      else if [a, b] \<in> set ws then []
      else [a, b])"
| "lstrip_with ws [a] = (if [a] \<in> set ws then [] else [a])"
| "lstrip_with ws [] = []"

definition strip :: "string \<Rightarrow> string" where
  "strip s = rev (lstrip_with (map rev white_space) (rev (lstrip_with white_space s)))"

section \<open>The environment: store, log, HTTP outcomes\<close>

text \<open>
  The world outside one call: the Credential Store and the log. A store entry keeps the
  value and the expiry it was written with; the model has no clock, so a read sees an
  entry that has not expired. A log entry is one \<^verbatim>\<open>logger.error\<close> or
  \<^verbatim>\<open>logger.info\<close> call of the module.
\<close>

type_synonym redis = "string \<rightharpoonup> (string \<times> json)"

datatype log_entry =
    Error_token_exchange string
  | Error_token_response_not_json
  | Error_stored_credentials_unparseable
  | Error_hubspot_api string
  | Error_get_items py_exception
  | Info_retrieved nat

record world =
  store :: redis
  log :: "log_entry list"

text \<open>
  Modelled from the spec: \<^verbatim>\<open>add_key_value_redis\<close> (\<^verbatim>\<open>redis_client\<close>, not among the
  sources) is the Credential Store's \<^verbatim>\<open>set(key, value, ttl_seconds)\<close>; a later write to
  a key replaces the earlier one.
\<close>

definition add_key_value_redis :: "string \<Rightarrow> string \<Rightarrow> json \<Rightarrow> world \<Rightarrow> world" where
  "add_key_value_redis key v expire w = w\<lparr>store := (store w)(key \<mapsto> (v, expire))\<rparr>"

text \<open>
  Modelled from the spec: \<^verbatim>\<open>get_value_redis\<close> (\<^verbatim>\<open>redis_client\<close>, not among the
  sources) is the Credential Store's \<^verbatim>\<open>get(key) -> string | absent\<close>.
\<close>

definition get_value_redis :: "string \<Rightarrow> world \<Rightarrow> string option" where
  "get_value_redis key w = map_option fst (store w key)"

definition logger :: "log_entry \<Rightarrow> world \<Rightarrow> world" where
  "logger e w = w\<lparr>log := log w @ [e]\<rparr>"

text \<open>
  What the provider and the network do to one request: the request fails
  (\<^verbatim>\<open>httpx.RequestError\<close>); the status is not a success, with the response text; the
  body is no JSON; decoding the body raises another exception; or the decoded body.
  \<open>http_block\<close> is the \<^verbatim>\<open>async with httpx.AsyncClient()\<close> block: the request,
  \<^verbatim>\<open>raise_for_status()\<close>, \<^verbatim>\<open>response.json()\<close>.
\<close>

datatype http_outcome =
    Request_failed string
  | Status_error string
  | Not_json
  | Decode_failed py_exception
  | Json json

fun http_block :: "http_outcome \<Rightarrow> py_exception + json" where
  "http_block (Request_failed m) = Inl (RequestError m)"
| "http_block (Status_error text) = Inl (HTTPStatusError text)"
| "http_block Not_json = Inl JSONDecodeError"
| "http_block (Decode_failed e) = Inl e"
| "http_block (Json j) = Inr j"

section \<open>authorize_hubspot\<close>

record config =
  HUBSPOT_CLIENT_ID :: string
  HUBSPOT_REDIRECT_URI :: string

definition state_of :: "string \<Rightarrow> string \<Rightarrow> string" where
  "state_of user_id org_id = user_id @ ''_'' @ org_id"

definition auth_url :: "config \<Rightarrow> string \<Rightarrow> string \<Rightarrow> string" where
  "auth_url cfg user_id org_id =
     ''https://app.hubspot.com/oauth/authorize?'' @
     ''client_id='' @ HUBSPOT_CLIENT_ID cfg @ ''&'' @
     ''redirect_uri='' @ HUBSPOT_REDIRECT_URI cfg @ ''&'' @
     ''scope=crm.objects.contacts.read%20crm.objects.contacts.write&'' @
     ''state='' @ state_of user_id org_id"

definition authorize_hubspot :: "config \<Rightarrow> string \<Rightarrow> string \<Rightarrow> (string \<times> string) list" where
  "authorize_hubspot cfg user_id org_id = [(''authorization_url'', auth_url cfg user_id org_id)]"

section \<open>Reading a query string\<close>

text \<open>
  How the \<^verbatim>\<open>state\<close> parameter of a URL is read: the query of the URL as
  \<^verbatim>\<open>urllib.parse.urlsplit\<close> gives it, cut into fields as \<^verbatim>\<open>urllib.parse.parse_qsl\<close>
  does (this is also how the callback's \<^verbatim>\<open>request.query_params\<close> reads a query, with
  \<^verbatim>\<open>keep_blank_values\<close> set).
\<close>

definition is_ascii :: "char \<Rightarrow> bool" where
  "is_ascii c = (byte c < 0x80)"

fun index_of :: "'a list \<Rightarrow> 'a \<Rightarrow> nat option" where
  "index_of [] x = None"
| "index_of (y # ys) x = (if x = y then Some 0 else map_option Suc (index_of ys x))"

definition hex_val :: "char \<Rightarrow> nat option" where
  "hex_val c =
     (case index_of ''0123456789abcdef'' c of
        Some n \<Rightarrow> Some n
      | None \<Rightarrow> index_of ''0123456789ABCDEF'' c)"

text \<open>\<^verbatim>\<open>unquote_to_bytes\<close>: \<^verbatim>\<open>%\<close> and two hexadecimal digits are one byte.\<close>

fun unquote_to_bytes :: "string \<Rightarrow> string" where
  "unquote_to_bytes (c # h # l # cs) =
     (if c = CHR ''%'' \<and> hex_val h \<noteq> None \<and> hex_val l \<noteq> None
      then char_of (16 * the (hex_val h) + the (hex_val l)) # unquote_to_bytes cs
      else c # unquote_to_bytes (h # l # cs))"
| "unquote_to_bytes cs = cs"

text \<open>
  \<^verbatim>\<open>bytes.decode('utf-8', errors='replace')\<close>, the result again in UTF-8: a well-formed
  sequence stays, every maximal ill-formed part becomes U+FFFD. \<open>second_ok b b2\<close>: \<open>b2\<close>
  may follow the lead byte \<open>b\<close>.
\<close>

definition second_ok :: "char \<Rightarrow> char \<Rightarrow> bool" where
  "second_ok b b2 =
     (continuation b2 \<and>
      \<not> (byte b = 0xE0 \<and> byte b2 < 0xA0) \<and> \<not> (byte b = 0xED \<and> 0xA0 \<le> byte b2) \<and>
      \<not> (byte b = 0xF0 \<and> byte b2 < 0x90) \<and> \<not> (byte b = 0xF4 \<and> 0x90 \<le> byte b2))"

definition replacement :: string where
  "replacement = [CHR 0xEF, CHR 0xBF, CHR 0xBD]"

fun decode_replace :: "string \<Rightarrow> string" where
  "decode_replace [] = []"
| "decode_replace (b # bs) =
     (if byte b < 0x80 then b # decode_replace bs
      else if byte b < 0xC2 \<or> 0xF5 \<le> byte b then replacement @ decode_replace bs
      else
        (case bs of
           [] \<Rightarrow> replacement
         | b2 # r2 \<Rightarrow>
             if \<not> second_ok b b2 then replacement @ decode_replace bs
             else if byte b < 0xE0 then b # b2 # decode_replace r2
             else
               (case r2 of
                  [] \<Rightarrow> replacement
                | b3 # r3 \<Rightarrow>
                    if \<not> continuation b3 then replacement @ decode_replace r2
                    else if byte b < 0xF0 then b # b2 # b3 # decode_replace r3
                    else
                      (case r3 of
                         [] \<Rightarrow> replacement
                       | b4 # r4 \<Rightarrow>
                           if \<not> continuation b4 then replacement @ decode_replace r3
                           else b # b2 # b3 # b4 # decode_replace r4))))"

text \<open>
  \<^verbatim>\<open>unquote\<close>: a string without \<^verbatim>\<open>%\<close> is returned as it is; otherwise every
  maximal run of ASCII characters is unquoted to bytes and decoded, and the other
  characters are kept.
\<close>

fun ascii_runs :: "string \<Rightarrow> (bool \<times> string) list" where
  "ascii_runs [] = []"
| "ascii_runs (c # cs) =
     (case ascii_runs cs of
        [] \<Rightarrow> [(is_ascii c, [c])]
      | (a, run) # runs \<Rightarrow>
          if a = is_ascii c then (a, c # run) # runs
          else (is_ascii c, [c]) # (a, run) # runs)"

definition unquote :: "string \<Rightarrow> string" where
  "unquote s =
     (if CHR ''%'' \<notin> set s then s
      else concat (map (\<lambda>(a, run). if a then decode_replace (unquote_to_bytes run) else run)
                    (ascii_runs s)))"

definition unquote_plus :: "string \<Rightarrow> string" where
  "unquote_plus s = unquote (map (\<lambda>c. if c = CHR ''+'' then CHR '' '' else c) s)"

text \<open>
  \<^verbatim>\<open>urlsplit(url).query\<close>. Leading control characters and spaces are stripped and every
  TAB, LF and CR is deleted; a scheme and a network location are split off; the query
  lies between the first \<^verbatim>\<open>?\<close> and the fragment. \<^verbatim>\<open>urlsplit\<close> validates a network
  location that has a bracket or a character outside ASCII, and may raise: that part is
  not modelled, the result is \<open>None\<close> there.
\<close>

definition scheme_chars :: string where
  "scheme_chars = ''abcdefghijklmnopqrstuvwxyzABCDEFGHIJKLMNOPQRSTUVWXYZ0123456789+-.''"

definition after_scheme :: "string \<Rightarrow> string" where
  "after_scheme url =
     (let scheme = takeWhile (\<lambda>c. c \<noteq> CHR '':'') url
      in if scheme \<noteq> [] \<and> scheme \<noteq> url \<and>
            hd url \<in> set ''abcdefghijklmnopqrstuvwxyzABCDEFGHIJKLMNOPQRSTUVWXYZ'' \<and>
            list_all (\<lambda>c. c \<in> set scheme_chars) scheme
         then drop (Suc (length scheme)) url else url)"

definition unsafe :: "char \<Rightarrow> bool" where
  "unsafe c = (c \<in> set [CHR 0x09, CHR 0x0A, CHR 0x0D])"

definition url_query :: "string \<Rightarrow> string option" where
  "url_query url =
     (let url = filter (\<lambda>c. \<not> unsafe c) (dropWhile (\<lambda>c. byte c \<le> 0x20) url);
          rest = after_scheme url;
          netloc = (if take 2 rest = ''//''
                    then takeWhile (\<lambda>c. c \<notin> set ''/?#'') (drop 2 rest) else []);
          path = (if take 2 rest = ''//''
                  then dropWhile (\<lambda>c. c \<notin> set ''/?#'') (drop 2 rest) else rest)
      in if list_ex (\<lambda>c. c = CHR ''['' \<or> c = CHR '']'' \<or> \<not> is_ascii c) netloc then None
         else
           (case dropWhile (\<lambda>c. c \<noteq> CHR ''?'') (takeWhile (\<lambda>c. c \<noteq> CHR ''#'') path) of
              [] \<Rightarrow> Some []
            | q # query \<Rightarrow> Some query))"

text \<open>
  \<^verbatim>\<open>parse_qsl(qs, keep_blank_values)\<close>: the fields between \<^verbatim>\<open>&\<close>, each cut at its first
  \<^verbatim>\<open>=\<close>, name and value unquoted after \<^verbatim>\<open>+\<close> became a space. An empty field is
  skipped; without \<^verbatim>\<open>keep_blank_values\<close> so is a field with no \<^verbatim>\<open>=\<close> or an empty
  value.
\<close>

definition parse_field :: "string \<Rightarrow> string \<times> string" where
  "parse_field f =
     (unquote_plus (takeWhile (\<lambda>c. c \<noteq> CHR ''='') f),
      unquote_plus (case dropWhile (\<lambda>c. c \<noteq> CHR ''='') f of [] \<Rightarrow> [] | e # v \<Rightarrow> v))"

definition parse_qsl :: "bool \<Rightarrow> string \<Rightarrow> (string \<times> string) list" where
  "parse_qsl keep_blank_values qs =
     (if qs = [] then []
      else map parse_field
             (filter (\<lambda>f. f \<noteq> [] \<and>
                           (keep_blank_values \<or>
                            (case dropWhile (\<lambda>c. c \<noteq> CHR ''='') f of
                               [] \<Rightarrow> False
                             | e # v \<Rightarrow> v \<noteq> [])))
                (split_py (CHR ''&'') qs)))"

text \<open>
  The values a query gives for a name, in the order of the fields, and the value a
  reader that keeps one value per name returns: the last (\<^verbatim>\<open>request.query_params.get\<close>,
  \<^verbatim>\<open>dict(parse_qsl(...))\<close>).
\<close>

definition query_values :: "bool \<Rightarrow> string \<Rightarrow> string \<Rightarrow> string list" where
  "query_values keep_blank_values qs key =
     map snd (filter (\<lambda>kv. fst kv = key) (parse_qsl keep_blank_values qs))"

definition query_param :: "bool \<Rightarrow> string \<Rightarrow> string \<Rightarrow> string option" where
  "query_param keep_blank_values url key =
     (case url_query url of
        None \<Rightarrow> None
      | Some qs \<Rightarrow>
          (case query_values keep_blank_values qs key of
             [] \<Rightarrow> None
           | v # vs \<Rightarrow> Some (last (v # vs))))"

section \<open>oauth2callback_hubspot\<close>

datatype html = HTMLResponse

definition redis_key_of :: "string \<Rightarrow> string \<Rightarrow> string" where
  "redis_key_of user_id org_id = ''hubspot_credentials_'' @ user_id @ ''_'' @ org_id"

definition oauth2callback_hubspot ::
  "'t library \<Rightarrow> (string \<rightharpoonup> string) \<Rightarrow> http_outcome \<Rightarrow> world \<Rightarrow> html reply outcome \<times> world" where
  "oauth2callback_hubspot lib query_params token_response w =
     (let code = query_params ''code'';
          state = (case query_params ''state'' of None \<Rightarrow> [] | Some s \<Rightarrow> s)
      in if code = None \<or> code = Some [] then
           (Return (Error (Text ''Authorization code not found'')), w)
         else
           (case split_py (CHR ''_'') state of
              [user_id, org_id] \<Rightarrow>
                (case http_block token_response of
                   Inl (HTTPStatusError text) \<Rightarrow>
                     (Return (Error (Text text)), logger (Error_token_exchange text) w)
                 | Inl JSONDecodeError \<Rightarrow>
                     (Return (Error (Text ''Invalid response from HubSpot'')),
                      logger Error_token_response_not_json w)
                 | Inl e \<Rightarrow> (Raise e, w)
                 | Inr response_json \<Rightarrow>
                     (case py_get response_json ''expires_in'' (JInt 1800) of
                        Inl e \<Rightarrow> (Raise e, w)
                      | Inr expire \<Rightarrow>
                          (Return (Ok HTMLResponse),
                           add_key_value_redis (redis_key_of user_id org_id)
                             (json_dumps lib response_json) expire w)))
            | _ \<Rightarrow> (Return (Error (Text ''Invalid state parameter'')), w)))"

section \<open>get_hubspot_credentials\<close>

definition no_valid_credentials :: "json reply" where
  "no_valid_credentials = Error (Text ''No valid credentials found. Please authorize HubSpot.'')"

definition get_hubspot_credentials ::
  "'t library \<Rightarrow> string \<Rightarrow> string \<Rightarrow> world \<Rightarrow> json reply outcome \<times> world" where
  "get_hubspot_credentials lib user_id org_id w =
     (case get_value_redis (redis_key_of user_id org_id) w of
        None \<Rightarrow> (Return no_valid_credentials, w)
      | Some stored_credentials \<Rightarrow>
          if stored_credentials = [] then (Return no_valid_credentials, w)
          else
            (case json_loads lib stored_credentials of
               Inl JSONDecodeError \<Rightarrow>
                 (Return no_valid_credentials, logger Error_stored_credentials_unparseable w)
             | Inl e \<Rightarrow> (Raise e, w)
             | Inr credentials \<Rightarrow>
                 (case py_in ''access_token'' credentials of
                    Inl e \<Rightarrow> (Raise e, w)
                  | Inr True \<Rightarrow> (Return (Ok credentials), w)
                  | Inr False \<Rightarrow> (Return no_valid_credentials, w))))"

section \<open>get_items_hubspot\<close>

text \<open>
  Modelled from the spec: \<^verbatim>\<open>IntegrationItem\<close> (\<^verbatim>\<open>integration_item.py\<close>, not among
  the sources) is the Integration Item of the data model, built from the keyword
  arguments the connector passes: \<^verbatim>\<open>id\<close>, \<^verbatim>\<open>type\<close>, \<^verbatim>\<open>name\<close>, \<^verbatim>\<open>email\<close>,
  \<^verbatim>\<open>creation_time\<close>, \<^verbatim>\<open>last_modified_time\<close>, \<^verbatim>\<open>metadata\<close>, \<^verbatim>\<open>raw_data\<close>,
  \<^verbatim>\<open>visibility\<close>.
\<close>

record 't integration_item =
  item_id :: json
  item_type :: string
  name :: string
  email :: json
  creation_time :: "'t option"
  last_modified_time :: "'t option"
  metadata :: "(string \<times> json) list"
  raw_data :: json
  visibility :: bool

text \<open>The \<^verbatim>\<open>metadata\<close> dict literal, for a contact dict \<open>contact\<close> and its dict \<open>props\<close>.\<close>

definition metadata_of ::
  "'t library \<Rightarrow> (string \<times> json) list \<Rightarrow> (string \<times> json) list \<Rightarrow> (string \<times> json) list" where
  "metadata_of lib contact props =
     [(''hubspot_id'', dict_get contact ''id'' JNull),
      (''created_at'', dict_get props ''createdate'' JNull),
      (''updated_at'', dict_get props ''lastmodifieddate'' JNull),
      (''company'', dict_get props ''company'' JNull),
      (''website'', dict_get props ''website'' JNull),
      (''address'', dict_get props ''address'' JNull),
      (''city'', dict_get props ''city'' JNull),
      (''state'', dict_get props ''state'' JNull),
      (''country'', dict_get props ''country'' JNull),
      (''phone'', dict_get props ''phone'' JNull),
      (''mobile_phone'', dict_get props ''mobilephone'' JNull),
      (''job_title'', dict_get props ''jobtitle'' JNull),
      (''industry'', dict_get props ''industry'' JNull),
      (''lifecycle_stage'', dict_get props ''lifecyclestage'' JNull),
      (''lead_status'', dict_get props ''lead_status'' JNull),
      (''description'',
         JStr (''Contact at '' @ py_str lib (dict_get props ''company'' (JStr ''No Company''))))]"

text \<open>
  \<^verbatim>\<open>datetime.fromisoformat(props[key].replace("Z", "+00:00")) if key in props else None\<close>,
  the expression the source writes once for \<^verbatim>\<open>createdate\<close> and once for
  \<^verbatim>\<open>lastmodifieddate\<close>.
\<close>

definition parse_timestamp ::
  "'t library \<Rightarrow> (string \<times> json) list \<Rightarrow> string \<Rightarrow> py_exception + 't option" where
  "parse_timestamp lib props key =
     (case map_of props key of
        None \<Rightarrow> Inr None
      | Some (JStr s) \<Rightarrow>
          (case fromisoformat lib (replace_Z s) of
             None \<Rightarrow> Inl (ValueError_isoformat (replace_Z s))
           | Some t \<Rightarrow> Inr (Some t))
      | Some v \<Rightarrow> Inl (AttributeError (type_name v) ''replace''))"


text \<open>The body of the loop, for one element of the result list.\<close>

definition build_item :: "'t library \<Rightarrow> json \<Rightarrow> py_exception + 't integration_item" where
  "build_item lib contact =
     (case contact of
        JObj c \<Rightarrow>
          (case dict_get c ''properties'' (JObj []) of
             JObj props \<Rightarrow>
               (case parse_timestamp lib props ''createdate'' of
                  Inl e \<Rightarrow> Inl e
                | Inr creation \<Rightarrow>
                    (case parse_timestamp lib props ''lastmodifieddate'' of
                       Inl e \<Rightarrow> Inl e
                     | Inr modified \<Rightarrow>
                         Inr \<lparr>item_id = dict_get c ''id'' JNull,
                              item_type = ''contact'',
                              name = strip (py_str lib (dict_get props ''firstname'' (JStr [])) @ '' '' @
                                            py_str lib (dict_get props ''lastname'' (JStr []))),
                              email = dict_get props ''email'' JNull,
                              creation_time = creation,
                              last_modified_time = modified,
                              metadata = metadata_of lib c props,
                              raw_data = contact,
                              visibility = True\<rparr>))
           | p \<Rightarrow> Inl (AttributeError (type_name p) ''get''))
      | v \<Rightarrow> Inl (AttributeError (type_name v) ''get''))"

text \<open>The loop: one item appended per element, the first exception ends it.\<close>

fun items_loop ::
  "'t library \<Rightarrow> json list \<Rightarrow> 't integration_item list \<Rightarrow> py_exception + 't integration_item list" where
  "items_loop lib [] integration_items = Inr integration_items"
| "items_loop lib (contact # rest) integration_items =
     (case build_item lib contact of
        Inl e \<Rightarrow> Inl e
      | Inr item \<Rightarrow> items_loop lib rest (integration_items @ [item]))"

text \<open>The \<^verbatim>\<open>try\<close> block: an exception, or the value returned and the log written.\<close>

definition get_items_try ::
  "'t library \<Rightarrow> json \<Rightarrow> http_outcome \<Rightarrow> world \<Rightarrow>
     py_exception + ('t integration_item list reply \<times> world)" where
  "get_items_try lib credentials listing w =
     (case (case credentials of
              JStr s \<Rightarrow> json_loads lib s
            | v \<Rightarrow> Inr v) of
        Inl e \<Rightarrow> Inl e
      | Inr credentials_dict \<Rightarrow>
          (case py_get credentials_dict ''access_token'' JNull of
             Inl e \<Rightarrow> Inl e
           | Inr access_token \<Rightarrow>
               if \<not> truthy access_token then Inr (Error (Text ''Access token is missing''), w)
               else
                 (case http_block listing of
                    Inl e \<Rightarrow> Inl e
                  | Inr data \<Rightarrow>
                      (case py_get data ''results'' (JArr []) of
                         Inl e \<Rightarrow> Inl e
                       | Inr results \<Rightarrow>
                           (case py_iter results of
                              Inl e \<Rightarrow> Inl e
                            | Inr contacts \<Rightarrow>
                                (case items_loop lib contacts [] of
                                   Inl e \<Rightarrow> Inl e
                                 | Inr integration_items \<Rightarrow>
                                     Inr (Ok integration_items,
                                          logger (Info_retrieved (length integration_items)) w)))))))"

text \<open>The function: the \<^verbatim>\<open>try\<close> block under its two handlers.\<close>

definition get_items_hubspot ::
  "'t library \<Rightarrow> json \<Rightarrow> http_outcome \<Rightarrow> world \<Rightarrow> 't integration_item list reply \<times> world" where
  "get_items_hubspot lib credentials listing w =
     (case get_items_try lib credentials listing w of
        Inr r \<Rightarrow> r
      | Inl (HTTPStatusError text) \<Rightarrow> (Error (Text text), logger (Error_hubspot_api text) w)
      | Inl e \<Rightarrow> (Error (Str_of e), logger (Error_get_items e) w))"

text \<open>
  Which provider property each copied \<^verbatim>\<open>metadata\<close> key is read from, as the dict
  literal writes it (\<^verbatim>\<open>hubspot_id\<close> is read from the record's \<^verbatim>\<open>id\<close>,
  \<^verbatim>\<open>description\<close> is synthesized).
\<close>

definition metadata_sources :: "(string \<times> string) list" where
  "metadata_sources =
     [(''created_at'', ''createdate''), (''updated_at'', ''lastmodifieddate''),
      (''company'', ''company''), (''website'', ''website''), (''address'', ''address''),
      (''city'', ''city''), (''state'', ''state''), (''country'', ''country''),
      (''phone'', ''phone''), (''mobile_phone'', ''mobilephone''), (''job_title'', ''jobtitle''),
      (''industry'', ''industry''), (''lifecycle_stage'', ''lifecyclestage''),
      (''lead_status'', ''lead_status'')]"

section \<open>Sample data\<close>

text \<open>
  Concrete inputs for the closed theorems below. \<open>sample_library\<close> is a table of the
  library's results at the texts and values these inputs contain: \<^verbatim>\<open>json.dumps\<close> and
  \<^verbatim>\<open>json.loads\<close> on seven stored texts, \<^verbatim>\<open>datetime.fromisoformat\<close> on one
  well-formed time stamp. The other texts the samples use, \<^verbatim>\<open>not json\<close>, the empty
  text and \<^verbatim>\<open>not-a-date\<close>, are rejected, as the library rejects them; \<^verbatim>\<open>repr\<close> is
  not exercised. \<open>Datetime y m d h mi s off\<close> is the aware datetime with UTC offset \<open>off\<close>
  seconds.
\<close>

datatype datetime = Datetime nat nat nat nat nat nat int

definition sample_token_text :: string where
  \<open>sample_token_text = ''{"access_token": "tok123", "expires_in": 600}''\<close>

definition sample_token_response :: json where
  "sample_token_response = JObj [(''access_token'', JStr ''tok123''), (''expires_in'', JInt 600)]"

definition tokenless_text :: string where
  \<open>tokenless_text = ''{"expires_in": 600}''\<close>

definition array_text :: string where
  \<open>array_text = ''["access_token"]''\<close>

definition sample_loads :: "string \<Rightarrow> py_exception + json" where
  "sample_loads s =
     (if s = sample_token_text then Inr sample_token_response
      else if s = tokenless_text then Inr (JObj [(''expires_in'', JInt 600)])
      else if s = array_text then Inr (JArr [JStr ''access_token''])
      else if s = ''[]'' then Inr (JArr [])
      else if s = ''null'' then Inr JNull
      else if s = ''123'' then Inr (JInt 123)
      else if s = ''true'' then Inr (JBool True)
      else Inl JSONDecodeError)"

definition sample_dumps :: "json \<Rightarrow> string" where
  "sample_dumps v =
     (if v = sample_token_response then sample_token_text
      else if v = JObj [(''expires_in'', JInt 600)] then tokenless_text
      else if v = JArr [JStr ''access_token''] then array_text
      else if v = JArr [] then ''[]''
      else ''null'')"

definition sample_fromisoformat :: "string \<Rightarrow> datetime option" where
  "sample_fromisoformat s =
     (if s = ''2023-01-01T00:00:00+00:00'' then Some (Datetime 2023 1 1 0 0 0 0) else None)"

definition sample_library :: "datetime library" where
  "sample_library =
     \<lparr>json_loads = sample_loads, json_dumps = sample_dumps,
      fromisoformat = sample_fromisoformat, repr = (\<lambda>v. [])\<rparr>"

definition sample_config :: config where
  "sample_config =
     \<lparr>HUBSPOT_CLIENT_ID = ''client-id'',
      HUBSPOT_REDIRECT_URI = ''http://localhost:8000/integrations/hubspot/oauth2callback''\<rparr>"

definition empty_world :: world where
  "empty_world = \<lparr>store = Map.empty, log = []\<rparr>"

definition blank_code_request :: "string \<rightharpoonup> string" where
  "blank_code_request = [''code'' \<mapsto> [], ''state'' \<mapsto> ''abc'']"

definition corrupt_world :: world where
  "corrupt_world = \<lparr>store = [''hubspot_credentials_u1_o1'' \<mapsto> (''not json'', JInt 600)], log = []\<rparr>"

definition blank_world :: world where
  "blank_world = \<lparr>store = [''hubspot_credentials_u1_o1'' \<mapsto> ([], JInt 600)], log = []\<rparr>"

definition number_world :: world where
  "number_world = \<lparr>store = [''hubspot_credentials_u1_o1'' \<mapsto> (''123'', JInt 600)], log = []\<rparr>"

definition true_world :: world where
  "true_world = \<lparr>store = [''hubspot_credentials_u1_o1'' \<mapsto> (''true'', JInt 600)], log = []\<rparr>"

definition null_world :: world where
  "null_world = \<lparr>store = [''hubspot_credentials_u1_o1'' \<mapsto> (''null'', JInt 600)], log = []\<rparr>"

definition sample_credentials :: json where
  "sample_credentials = JObj [(''access_token'', JStr ''tok123'')]"

definition jane_doe :: json where
  "jane_doe =
     JObj [(''id'', JStr ''1''),
           (''properties'',
            JObj [(''firstname'', JStr ''Jane''), (''lastname'', JStr ''Doe''),
                  (''company'', JStr ''Acme''), (''createdate'', JStr ''2023-01-01T00:00:00Z'')])]"

definition bad_date_contact :: json where
  "bad_date_contact =
     JObj [(''id'', JStr ''2''),
           (''properties'',
            JObj [(''createdate'', JStr ''not-a-date''),
                  (''lastmodifieddate'', JStr ''2023-01-01T00:00:00Z'')])]"

definition null_company_contact :: json where
  "null_company_contact =
     JObj [(''id'', JStr ''3''),
           (''properties'', JObj [(''firstname'', JStr ''Sam''), (''company'', JNull)])]"

definition null_date_contact :: json where
  "null_date_contact =
     JObj [(''id'', JStr ''4''), (''properties'', JObj [(''createdate'', JNull)])]"


definition bare_contact :: json where
  "bare_contact = JObj []"

definition bare_item :: "datetime integration_item" where
  "bare_item =
     \<lparr>item_id = JNull, item_type = ''contact'', name = [], email = JNull,
      creation_time = None, last_modified_time = None,
      metadata =
        [(''hubspot_id'', JNull), (''created_at'', JNull),
         (''updated_at'', JNull), (''company'', JNull), (''website'', JNull),
         (''address'', JNull), (''city'', JNull), (''state'', JNull), (''country'', JNull),
         (''phone'', JNull), (''mobile_phone'', JNull), (''job_title'', JNull),
         (''industry'', JNull), (''lifecycle_stage'', JNull), (''lead_status'', JNull),
         (''description'', JStr ''Contact at No Company'')],
      raw_data = bare_contact, visibility = True\<rparr>"

definition jane_item :: "datetime integration_item" where
  "jane_item =
     \<lparr>item_id = JStr ''1'', item_type = ''contact'', name = ''Jane Doe'', email = JNull,
      creation_time = Some (Datetime 2023 1 1 0 0 0 0), last_modified_time = None,
      metadata =
        [(''hubspot_id'', JStr ''1''), (''created_at'', JStr ''2023-01-01T00:00:00Z''),
         (''updated_at'', JNull), (''company'', JStr ''Acme''), (''website'', JNull),
         (''address'', JNull), (''city'', JNull), (''state'', JNull), (''country'', JNull),
         (''phone'', JNull), (''mobile_phone'', JNull), (''job_title'', JNull),
         (''industry'', JNull), (''lifecycle_stage'', JNull), (''lead_status'', JNull),
         (''description'', JStr ''Contact at Acme'')],
      raw_data = jane_doe, visibility = True\<rparr>"

definition null_company_item :: "datetime integration_item" where
  "null_company_item =
     \<lparr>item_id = JStr ''3'', item_type = ''contact'', name = ''Sam'', email = JNull,
      creation_time = None, last_modified_time = None,
      metadata =
        [(''hubspot_id'', JStr ''3''), (''created_at'', JNull),
         (''updated_at'', JNull), (''company'', JNull), (''website'', JNull),
         (''address'', JNull), (''city'', JNull), (''state'', JNull), (''country'', JNull),
         (''phone'', JNull), (''mobile_phone'', JNull), (''job_title'', JNull),
         (''industry'', JNull), (''lifecycle_stage'', JNull), (''lead_status'', JNull),
         (''description'', JStr ''Contact at None'')],
      raw_data = null_company_contact, visibility = True\<rparr>"

lemmas sample_defs = sample_library_def sample_loads_def sample_dumps_def
  sample_fromisoformat_def sample_credentials_def empty_world_def sample_token_text_def
  tokenless_text_def array_text_def sample_token_response_def

lemmas get_items_defs = get_items_hubspot_def get_items_try_def build_item_def
  parse_timestamp_def metadata_of_def dict_get_def replace_Z_def strip_def white_space_def
  logger_def

section \<open>Splitting and query strings\<close>

lemma split_py_not_Nil: "split_py c s \<noteq> []"
  by (induction s) (auto split: list.splits)

lemma split_py_no_sep: "c \<notin> set s \<Longrightarrow> split_py c s = [s]"
  by (induction s) auto

lemma split_py_append: "split_py c (xs @ c # ys) = split_py c xs @ split_py c ys"
  by (induction xs) (auto simp: split_py_not_Nil split: list.splits)

lemma split_py_pair:
  "c \<notin> set u \<Longrightarrow> c \<notin> set v \<Longrightarrow> split_py c (u @ c # v) = [u, v]"
  by (simp add: split_py_append split_py_no_sep)

lemma unquote_id: "CHR ''%'' \<notin> set s \<Longrightarrow> unquote s = s"
  by (simp add: unquote_def)

lemma unquote_plus_id: "CHR ''%'' \<notin> set s \<Longrightarrow> CHR ''+'' \<notin> set s \<Longrightarrow> unquote_plus s = s"
proof -
  assume a: "CHR ''%'' \<notin> set s" and b: "CHR ''+'' \<notin> set s"
  from b have "map (\<lambda>c. if c = CHR ''+'' then CHR '' '' else c) s = s"
    by (induction s) auto
  with a show ?thesis by (simp add: unquote_plus_def unquote_id)
qed

lemma parse_field_state:
  assumes "CHR ''%'' \<notin> set st" "CHR ''+'' \<notin> set st"
  shows "parse_field (''state='' @ st) = (''state'', st)"
  using assms by (simp add: parse_field_def unquote_plus_id)

lemma parse_field_names:
  "fst (parse_field (''client_id='' @ x)) = ''client_id''"
  "fst (parse_field (''redirect_uri='' @ y)) = ''redirect_uri''"
  "fst (parse_field ''scope=crm.objects.contacts.read%20crm.objects.contacts.write'') = ''scope''"
  by (simp_all add: parse_field_def unquote_plus_def unquote_def)

lemma parse_qsl_last_field:
  assumes "CHR ''&'' \<notin> set st" "CHR ''%'' \<notin> set st" "CHR ''+'' \<notin> set st" "st \<noteq> []"
  shows "\<exists>fields. split_py (CHR ''&'') (q @ CHR ''&'' # ''state='' @ st) =
             split_py (CHR ''&'') q @ [''state='' @ st] \<and>
           set fields \<subseteq> set (split_py (CHR ''&'') q) \<and>
           parse_qsl kb (q @ CHR ''&'' # ''state='' @ st) =
             map parse_field fields @ [(''state'', st)]"
proof -
  have "CHR ''&'' \<notin> set (''state='' @ st)" using assms by simp
  then have "split_py (CHR ''&'') (''state='' @ st) = [''state='' @ st]"
    by (rule split_py_no_sep)
  then have fields: "split_py (CHR ''&'') (q @ CHR ''&'' # ''state='' @ st)
      = split_py (CHR ''&'') q @ [''state='' @ st]"
    by (simp only: split_py_append)
  let ?keep = "\<lambda>f. f \<noteq> [] \<and>
      (kb \<or> (case dropWhile (\<lambda>c. c \<noteq> CHR ''='') f of [] \<Rightarrow> False | e # v \<Rightarrow> v \<noteq> []))"
  have "?keep (''state='' @ st)" using assms(4) by simp
  then have "parse_qsl kb (q @ CHR ''&'' # ''state='' @ st) =
      map parse_field (filter ?keep (split_py (CHR ''&'') q)) @ [parse_field (''state='' @ st)]"
    unfolding parse_qsl_def fields by simp
  then have "parse_qsl kb (q @ CHR ''&'' # ''state='' @ st) =
      map parse_field (filter ?keep (split_py (CHR ''&'') q)) @ [(''state'', st)]"
    by (simp only: parse_field_state [OF assms(2,3)])
  with fields show ?thesis
    by (intro exI [of _ "filter ?keep (split_py (CHR ''&'') q)"]) simp
qed

lemma query_values_last:
  assumes "CHR ''&'' \<notin> set st" "CHR ''%'' \<notin> set st" "CHR ''+'' \<notin> set st" "st \<noteq> []"
  shows "\<exists>vs. query_values kb (q @ CHR ''&'' # ''state='' @ st) ''state'' = vs @ [st]"
proof -
  from parse_qsl_last_field [OF assms] obtain fields where
    "parse_qsl kb (q @ CHR ''&'' # ''state='' @ st) = map parse_field fields @ [(''state'', st)]"
    by blast
  then show ?thesis by (simp add: query_values_def)
qed

lemma query_values_only:
  assumes "CHR ''&'' \<notin> set st" "CHR ''%'' \<notin> set st" "CHR ''+'' \<notin> set st" "st \<noteq> []"
    and "CHR ''&'' \<notin> set x" "CHR ''&'' \<notin> set y"
  shows "query_values kb
           ((''client_id='' @ x @ ''&'' @ ''redirect_uri='' @ y @ ''&'' @
             ''scope=crm.objects.contacts.read%20crm.objects.contacts.write'') @
            CHR ''&'' # ''state='' @ st) ''state'' = [st]"
proof -
  let ?q = "''client_id='' @ x @ ''&'' @ ''redirect_uri='' @ y @ ''&'' @
      ''scope=crm.objects.contacts.read%20crm.objects.contacts.write''"
  let ?scope = "''scope=crm.objects.contacts.read%20crm.objects.contacts.write''"
  have x: "CHR ''&'' \<notin> set (''client_id='' @ x)" and y: "CHR ''&'' \<notin> set (''redirect_uri='' @ y)"
    using assms(5,6) by simp_all
  have s: "CHR ''&'' \<notin> set ?scope" by simp
  have "?q = (''client_id='' @ x) @ CHR ''&'' # ((''redirect_uri='' @ y) @ CHR ''&'' # ?scope)"
    by simp
  then have "split_py (CHR ''&'') ?q =
      split_py (CHR ''&'') (''client_id='' @ x) @
      split_py (CHR ''&'') (''redirect_uri='' @ y) @ split_py (CHR ''&'') ?scope"
    by (simp only: split_py_append)
  then have q: "split_py (CHR ''&'') ?q = [''client_id='' @ x, ''redirect_uri='' @ y, ?scope]"
    by (simp only: split_py_no_sep [OF x] split_py_no_sep [OF y] split_py_no_sep [OF s]) simp
  from parse_qsl_last_field [OF assms(1-4), of ?q kb] obtain fields where
    sub: "set fields \<subseteq> set (split_py (CHR ''&'') ?q)"
    and p: "parse_qsl kb (?q @ CHR ''&'' # ''state='' @ st) =
      map parse_field fields @ [(''state'', st)]" by blast
  have "fst (parse_field f) \<noteq> ''state''" if "f \<in> set fields" for f
  proof -
    from that sub q have "f = ''client_id='' @ x \<or> f = ''redirect_uri='' @ y \<or> f = ?scope"
      by auto
    then show ?thesis
      using parse_field_names by (elim disjE) simp_all
  qed
  then have "filter (\<lambda>kv. fst kv = ''state'') (map parse_field fields) = []"
    by (simp add: filter_empty_conv)
  with p show ?thesis by (simp add: query_values_def)
qed

lemma url_query_auth_url:
  assumes "CHR ''#'' \<notin> set (HUBSPOT_CLIENT_ID cfg)" "CHR ''#'' \<notin> set (HUBSPOT_REDIRECT_URI cfg)"
    and "CHR ''#'' \<notin> set st" "list_all (\<lambda>c. \<not> unsafe c) st"
  shows "url_query (''https://app.hubspot.com/oauth/authorize?'' @
     ''client_id='' @ HUBSPOT_CLIENT_ID cfg @ ''&'' @
     ''redirect_uri='' @ HUBSPOT_REDIRECT_URI cfg @ ''&'' @
     ''scope=crm.objects.contacts.read%20crm.objects.contacts.write&'' @
     ''state='' @ st) =
     Some ((''client_id='' @ filter (\<lambda>c. \<not> unsafe c) (HUBSPOT_CLIENT_ID cfg) @ ''&'' @
     ''redirect_uri='' @ filter (\<lambda>c. \<not> unsafe c) (HUBSPOT_REDIRECT_URI cfg) @ ''&'' @
     ''scope=crm.objects.contacts.read%20crm.objects.contacts.write'') @ CHR ''&'' # ''state='' @ st)"
proof -
  let ?x = "filter (\<lambda>c. \<not> unsafe c) (HUBSPOT_CLIENT_ID cfg)"
  let ?y = "filter (\<lambda>c. \<not> unsafe c) (HUBSPOT_REDIRECT_URI cfg)"
  let ?u = "''https://app.hubspot.com/oauth/authorize?'' @
     ''client_id='' @ HUBSPOT_CLIENT_ID cfg @ ''&'' @
     ''redirect_uri='' @ HUBSPOT_REDIRECT_URI cfg @ ''&'' @
     ''scope=crm.objects.contacts.read%20crm.objects.contacts.write&'' @
     ''state='' @ st"
  let ?path = "''/oauth/authorize?'' @
     ''client_id='' @ ?x @ ''&'' @ ''redirect_uri='' @ ?y @ ''&'' @
     ''scope=crm.objects.contacts.read%20crm.objects.contacts.write&'' @
     ''state='' @ st"
  have st: "filter (\<lambda>c. \<not> unsafe c) st = st"
    using assms(4) by (simp add: list_all_iff)
  have strip: "dropWhile (\<lambda>c. byte c \<le> 0x20) ?u = ?u"
    by (simp add: byte_def)
  have fixed:
    "filter (\<lambda>c. \<not> unsafe c) ''https://app.hubspot.com/oauth/authorize?'' =
       ''https://app.hubspot.com/oauth/authorize?''"
    "filter (\<lambda>c. \<not> unsafe c) ''client_id='' = ''client_id=''"
    "filter (\<lambda>c. \<not> unsafe c) ''&'' = ''&''"
    "filter (\<lambda>c. \<not> unsafe c) ''redirect_uri='' = ''redirect_uri=''"
    "filter (\<lambda>c. \<not> unsafe c) ''scope=crm.objects.contacts.read%20crm.objects.contacts.write&'' =
       ''scope=crm.objects.contacts.read%20crm.objects.contacts.write&''"
    "filter (\<lambda>c. \<not> unsafe c) ''state='' = ''state=''"
    by (simp_all add: unsafe_def)
  have clean: "filter (\<lambda>c. \<not> unsafe c) ?u = ''https:'' @ ''//app.hubspot.com'' @ ?path"
    by (simp only: filter_append fixed st) simp
  have scheme: "after_scheme (''https:'' @ ''//app.hubspot.com'' @ ?path) = ''//app.hubspot.com'' @ ?path"
    by (simp add: after_scheme_def scheme_chars_def)
  have netloc: "takeWhile (\<lambda>c. c \<notin> set ''/?#'') (drop 2 (''//app.hubspot.com'' @ ?path)) =
      ''app.hubspot.com''"
    and path: "dropWhile (\<lambda>c. c \<notin> set ''/?#'') (drop 2 (''//app.hubspot.com'' @ ?path)) = ?path"
    and slashes: "take 2 (''//app.hubspot.com'' @ ?path) = ''//''"
    by simp_all
  have host: "list_ex (\<lambda>c. c = CHR ''['' \<or> c = CHR '']'' \<or> \<not> is_ascii c) ''app.hubspot.com'' = False"
    by (simp add: is_ascii_def byte_def)
  have "\<forall>c\<in>set ?path. c \<noteq> CHR ''#''" using assms(1,2,3) by auto
  then have frag: "takeWhile (\<lambda>c. c \<noteq> CHR ''#'') ?path = ?path"
    by (simp only: takeWhile_eq_all_conv)
  have query: "dropWhile (\<lambda>c. c \<noteq> CHR ''?'') ?path =
      CHR ''?'' # (''client_id='' @ ?x @ ''&'' @ ''redirect_uri='' @ ?y @ ''&'' @
     ''scope=crm.objects.contacts.read%20crm.objects.contacts.write'') @ CHR ''&'' # ''state='' @ st"
    by simp
  show ?thesis
    unfolding url_query_def Let_def strip clean scheme slashes
    by (simp only: simp_thms if_True netloc path host if_False frag query list.case)
qed

lemma not_two_parts:
  "length parts \<noteq> 2 \<Longrightarrow> (case parts of [] \<Rightarrow> d | [a] \<Rightarrow> d | [a, b] \<Rightarrow> f a b | a # b # c # r \<Rightarrow> d) = d"
  by (auto split: list.splits)

section \<open>The callback and the store\<close>

lemma callback_success:
  assumes "query_params ''code'' = Some code" "code \<noteq> []"
    and "query_params ''state'' = Some state"
    and "split_py (CHR ''_'') state = [user_id, org_id]"
  shows "oauth2callback_hubspot lib query_params (Json (JObj response)) w =
           (Return (Ok HTMLResponse),
            add_key_value_redis (redis_key_of user_id org_id) (json_dumps lib (JObj response))
              (dict_get response ''expires_in'' (JInt 1800)) w)"
  using assms by (simp add: oauth2callback_hubspot_def)

lemma store_add_key_value_redis:
  "store (add_key_value_redis key v expire w) key = Some (v, expire)"
  by (simp add: add_key_value_redis_def)

lemma get_hubspot_credentials_object:
  assumes "store w (redis_key_of user_id org_id) = Some (stored, expire)" "stored \<noteq> []"
    and "json_loads lib stored = Inr (JObj credentials)"
  shows "get_hubspot_credentials lib user_id org_id w =
           (Return (if map_of credentials ''access_token'' = None then no_valid_credentials
                    else Ok (JObj credentials)), w)"
  using assms by (simp add: get_hubspot_credentials_def get_value_redis_def)

lemma get_hubspot_credentials_array:
  assumes "store w (redis_key_of user_id org_id) = Some (stored, expire)" "stored \<noteq> []"
    and "json_loads lib stored = Inr (JArr credentials)"
  shows "get_hubspot_credentials lib user_id org_id w =
           (Return (if JStr ''access_token'' \<in> set credentials then Ok (JArr credentials)
                    else no_valid_credentials), w)"
  using assms by (simp add: get_hubspot_credentials_def get_value_redis_def)

lemma get_hubspot_credentials_scalar:
  assumes "store w (redis_key_of user_id org_id) = Some (stored, expire)" "stored \<noteq> []"
    and "json_loads lib stored = Inr v"
    and "v = JNull \<or> (\<exists>b. v = JBool b) \<or> (\<exists>i. v = JInt i) \<or> (\<exists>r. v = JFloat r)"
  shows "get_hubspot_credentials lib user_id org_id w =
           (Raise (TypeError_not_iterable (type_name v)), w)"
  using assms by (auto simp: get_hubspot_credentials_def get_value_redis_def)

lemma get_hubspot_credentials_decoder_raises:
  assumes "store w (redis_key_of user_id org_id) = Some (stored, expire)" "stored \<noteq> []"
    and "json_loads lib stored = Inl e" "e \<noteq> JSONDecodeError"
  shows "get_hubspot_credentials lib user_id org_id w = (Raise e, w)"
  using assms by (cases e) (simp_all add: get_hubspot_credentials_def get_value_redis_def)

lemma get_hubspot_credentials_structured:
  assumes "store w (redis_key_of user_id org_id) = Some (stored, expire)" "stored \<noteq> []"
  shows "(\<forall>credentials. json_loads lib stored = Inr (JObj credentials) \<longrightarrow>
            (map_of credentials ''access_token'' = None \<longrightarrow>
               get_hubspot_credentials lib user_id org_id w =
                 (Return (Error (Text ''No valid credentials found. Please authorize HubSpot.'')), w)) \<and>
            (map_of credentials ''access_token'' \<noteq> None \<longrightarrow>
               get_hubspot_credentials lib user_id org_id w = (Return (Ok (JObj credentials)), w))) \<and>
         (\<forall>credentials. json_loads lib stored = Inr (JArr credentials) \<longrightarrow>
            (JStr ''access_token'' \<notin> set credentials \<longrightarrow>
               get_hubspot_credentials lib user_id org_id w =
                 (Return (Error (Text ''No valid credentials found. Please authorize HubSpot.'')), w)) \<and>
            (JStr ''access_token'' \<in> set credentials \<longrightarrow>
               get_hubspot_credentials lib user_id org_id w = (Return (Ok (JArr credentials)), w)))"
  using get_hubspot_credentials_object [OF assms, where lib = lib]
    get_hubspot_credentials_array [OF assms, where lib = lib]
  by (auto simp: no_valid_credentials_def)

section \<open>The fetch loop\<close>

lemma items_loop_Inr:
  "items_loop lib cs acc = Inr r \<Longrightarrow>
     \<exists>items. r = acc @ items \<and> list_all2 (\<lambda>c i. build_item lib c = Inr i) cs items"
proof (induction cs arbitrary: acc)
  case Nil
  then show ?case by simp
next
  case (Cons c cs)
  then obtain i where i: "build_item lib c = Inr i" and r: "items_loop lib cs (acc @ [i]) = Inr r"
    by (auto split: sum.splits)
  from Cons.IH [OF r] obtain items where "r = (acc @ [i]) @ items"
    and "list_all2 (\<lambda>c i. build_item lib c = Inr i) cs items" by blast
  with i show ?case by (intro exI [of _ "i # items"]) simp
qed


lemma get_items_try_Ok:
  assumes "get_items_try lib credentials listing w = Inr (Ok items, w')"
  shows "\<exists>data results contacts. listing = Json data \<and>
           py_get data ''results'' (JArr []) = Inr results \<and> py_iter results = Inr contacts \<and>
           items_loop lib contacts [] = Inr items"
  using assms unfolding get_items_try_def
  by (cases listing) (auto split: sum.splits if_splits)

lemma get_items_hubspot_Ok:
  assumes "fst (get_items_hubspot lib credentials listing w) = Ok items"
  shows "\<exists>data results contacts. listing = Json data \<and>
           py_get data ''results'' (JArr []) = Inr results \<and> py_iter results = Inr contacts \<and>
           list_all2 (\<lambda>c i. build_item lib c = Inr i) contacts items"
proof -
  from assms obtain w' where "get_items_try lib credentials listing w = Inr (Ok items, w')"
    unfolding get_items_hubspot_def
    by (auto split: sum.splits py_exception.splits)
  from get_items_try_Ok [OF this] obtain data results contacts where
    l: "listing = Json data" "py_get data ''results'' (JArr []) = Inr results"
      "py_iter results = Inr contacts" and "items_loop lib contacts [] = Inr items" by blast
  from items_loop_Inr [OF this(4)] have "list_all2 (\<lambda>c i. build_item lib c = Inr i) contacts items"
    by simp
  with l show ?thesis by blast
qed

lemma get_items_hubspot_item:
  assumes "fst (get_items_hubspot lib credentials listing w) = Ok items" "item \<in> set items"
  shows "\<exists>contact. build_item lib contact = Inr item"
proof -
  from get_items_hubspot_Ok [OF assms(1)] obtain contacts where
    "list_all2 (\<lambda>c i. build_item lib c = Inr i) contacts items" by blast
  with assms(2) show ?thesis
    by (auto simp: list_all2_conv_all_nth in_set_conv_nth)
qed

lemma build_item_Inr:
  assumes "build_item lib contact = Inr item"
  shows "\<exists>c props. contact = JObj c \<and> dict_get c ''properties'' (JObj []) = JObj props \<and>
           parse_timestamp lib props ''createdate'' = Inr (creation_time item) \<and>
           parse_timestamp lib props ''lastmodifieddate'' = Inr (last_modified_time item) \<and>
           metadata item = metadata_of lib c props \<and> raw_data item = contact"
  using assms unfolding build_item_def
  by (auto split: json.splits sum.splits)





lemma parse_timestamp_absent:
  "map_of props key = None \<Longrightarrow> parse_timestamp lib props key = Inr None"
  by (simp add: parse_timestamp_def)

lemma parse_timestamp_string:
  "map_of props key = Some (JStr s) \<Longrightarrow>
     parse_timestamp lib props key =
       (case fromisoformat lib (replace_Z s) of
          None \<Rightarrow> Inl (ValueError_isoformat (replace_Z s))
        | Some t \<Rightarrow> Inr (Some t))"
  by (simp add: parse_timestamp_def)

lemma timestamps_follow_their_fields:
  assumes "fst (get_items_hubspot lib credentials listing w) = Ok items" "item \<in> set items"
  shows "\<exists>c props. raw_data item = JObj c \<and> dict_get c ''properties'' (JObj []) = JObj props \<and>
           (map_of props ''createdate'' = None \<longrightarrow> creation_time item = None) \<and>
           (map_of props ''lastmodifieddate'' = None \<longrightarrow> last_modified_time item = None) \<and>
           (\<forall>s. map_of props ''createdate'' = Some (JStr s) \<longrightarrow>
              creation_time item = fromisoformat lib (replace_Z s)) \<and>
           (\<forall>s. map_of props ''lastmodifieddate'' = Some (JStr s) \<longrightarrow>
              last_modified_time item = fromisoformat lib (replace_Z s))"
proof -
  from assms obtain contact where "build_item lib contact = Inr item"
    using get_items_hubspot_item by blast
  from build_item_Inr [OF this] obtain c props where
    c: "raw_data item = JObj c" "dict_get c ''properties'' (JObj []) = JObj props"
    and t: "parse_timestamp lib props ''createdate'' = Inr (creation_time item)"
      "parse_timestamp lib props ''lastmodifieddate'' = Inr (last_modified_time item)"
    by auto
  show ?thesis
  proof (intro exI conjI)
    show "raw_data item = JObj c" by (rule c(1))
    show "dict_get c ''properties'' (JObj []) = JObj props" by (rule c(2))
    show "map_of props ''createdate'' = None \<longrightarrow> creation_time item = None"
      using t(1) by (auto simp: parse_timestamp_absent)
    show "map_of props ''lastmodifieddate'' = None \<longrightarrow> last_modified_time item = None"
      using t(2) by (auto simp: parse_timestamp_absent)
    show "\<forall>s. map_of props ''createdate'' = Some (JStr s) \<longrightarrow>
        creation_time item = fromisoformat lib (replace_Z s)"
      using t(1) by (auto simp: parse_timestamp_string split: option.splits)
    show "\<forall>s. map_of props ''lastmodifieddate'' = Some (JStr s) \<longrightarrow>
        last_modified_time item = fromisoformat lib (replace_Z s)"
      using t(2) by (auto simp: parse_timestamp_string split: option.splits)
  qed
qed

lemma metadata_description:
  "map_of (metadata_of lib c props) ''description'' =
     Some (JStr (''Contact at '' @
       (case map_of props ''company'' of None \<Rightarrow> ''No Company'' | Some v \<Rightarrow> py_str lib v)))"
  by (simp add: metadata_of_def dict_get_def split: option.splits)

lemma fetch_jane:
  "fst (get_items_hubspot sample_library sample_credentials
          (Json (JObj [(''results'', JArr [jane_doe])])) empty_world) = Ok [jane_item]"
  by (simp add: sample_defs get_items_defs jane_doe_def jane_item_def)

section \<open>Claims about the authorization flow\<close>

text \<open>
  Claim C1. A callback with a non-empty code and a state that splits into
  \<open>user_id\<close> and \<open>org_id\<close>, whose token exchange succeeds with a JSON object, returns the
  confirmation page and leaves under the key \<^verbatim>\<open>hubspot_credentials_{user_id}_{org_id}\<close> the
  \<^verbatim>\<open>json.dumps\<close> of the decoded response, with the expiry the response's
  \<^verbatim>\<open>expires_in\<close> and 1800 when the response has none; when the response has an
  \<^verbatim>\<open>access_token\<close>, \<open>get_hubspot_credentials\<close> on the resulting store returns the
  response. For the response \<^verbatim>\<open>{"access_token":"tok123","expires_in":600}\<close> the expiry
  is 600 and the object returned has the \<^verbatim>\<open>access_token\<close> \<^verbatim>\<open>tok123\<close>. The library is
  assumed to read back what it wrote (\<^verbatim>\<open>json.loads(json.dumps(r)) == r\<close>, and the text
  is not empty).
\<close>

theorem callback_stores_token_response:
  assumes "query_params ''code'' = Some code" "code \<noteq> []"
    and "query_params ''state'' = Some state"
    and "split_py (CHR ''_'') state = [user_id, org_id]"
    and "json_dumps lib (JObj response) \<noteq> []"
    and "json_loads lib (json_dumps lib (JObj response)) = Inr (JObj response)"
  shows "\<exists>w'. oauth2callback_hubspot lib query_params (Json (JObj response)) w =
                 (Return (Ok HTMLResponse), w') \<and>
              store w' (''hubspot_credentials_'' @ user_id @ ''_'' @ org_id) =
                 Some (json_dumps lib (JObj response),
                       case map_of response ''expires_in'' of None \<Rightarrow> JInt 1800 | Some ttl \<Rightarrow> ttl) \<and>
              (map_of response ''access_token'' \<noteq> None \<longrightarrow>
                 fst (get_hubspot_credentials lib user_id org_id w') = Return (Ok (JObj response))) \<and>
              (response = [(''access_token'', JStr ''tok123''), (''expires_in'', JInt 600)] \<longrightarrow>
                 map_option snd (store w' (''hubspot_credentials_'' @ user_id @ ''_'' @ org_id)) =
                   Some (JInt 600) \<and>
                 (\<exists>credentials.
                    fst (get_hubspot_credentials lib user_id org_id w') =
                      Return (Ok (JObj credentials)) \<and>
                    map_of credentials ''access_token'' = Some (JStr ''tok123'')))"
proof -
  let ?key = "''hubspot_credentials_'' @ user_id @ ''_'' @ org_id"
  let ?ttl = "case map_of response ''expires_in'' of None \<Rightarrow> JInt 1800 | Some ttl \<Rightarrow> ttl"
  define w' where "w' = add_key_value_redis (redis_key_of user_id org_id)
      (json_dumps lib (JObj response)) (dict_get response ''expires_in'' (JInt 1800)) w"
  have key: "redis_key_of user_id org_id = ?key"
    by (simp add: redis_key_of_def)
  have run: "oauth2callback_hubspot lib query_params (Json (JObj response)) w =
      (Return (Ok HTMLResponse), w')"
    unfolding w'_def by (rule callback_success [OF assms(1-4)])
  have entry: "store w' (redis_key_of user_id org_id) = Some (json_dumps lib (JObj response), ?ttl)"
    unfolding w'_def by (simp add: store_add_key_value_redis dict_get_def)
  have tok: "map_option snd (store w' ?key) = Some (JInt 600) \<and>
      (\<exists>credentials. fst (get_hubspot_credentials lib user_id org_id w') =
          Return (Ok (JObj credentials)) \<and>
        map_of credentials ''access_token'' = Some (JStr ''tok123''))"
    if r: "response = [(''access_token'', JStr ''tok123''), (''expires_in'', JInt 600)]"
  proof
    show "map_option snd (store w' ?key) = Some (JInt 600)"
      using entry by (simp add: key r)
    have "fst (get_hubspot_credentials lib user_id org_id w') = Return (Ok (JObj response))"
      using get_hubspot_credentials_object [OF entry assms(5,6)] by (simp add: r)
    then show "\<exists>credentials. fst (get_hubspot_credentials lib user_id org_id w') =
          Return (Ok (JObj credentials)) \<and>
        map_of credentials ''access_token'' = Some (JStr ''tok123'')"
      by (simp add: r)
  qed
  have reread: "map_of response ''access_token'' \<noteq> None \<longrightarrow>
      fst (get_hubspot_credentials lib user_id org_id w') = Return (Ok (JObj response))"
    using get_hubspot_credentials_object [OF entry assms(5,6)] by simp
  from run entry reread tok show ?thesis
    by (simp only: key) blast
qed

text \<open>
  Witness for C1: the callback for user \<^verbatim>\<open>u1\<close>, organisation \<^verbatim>\<open>o1\<close> on the empty store.
\<close>

theorem callback_stores_token_response_witness:
  "\<exists>w'. oauth2callback_hubspot sample_library [''code'' \<mapsto> ''c0de'', ''state'' \<mapsto> ''u1_o1'']
                 (Json sample_token_response) empty_world = (Return (Ok HTMLResponse), w') \<and>
        store w' ''hubspot_credentials_u1_o1'' = Some (sample_token_text, JInt 600) \<and>
        (\<exists>credentials.
           fst (get_hubspot_credentials sample_library ''u1'' ''o1'' w') = Return (Ok (JObj credentials)) \<and>
           map_of credentials ''access_token'' = Some (JStr ''tok123''))"
  using callback_stores_token_response [of "[''code'' \<mapsto> ''c0de'', ''state'' \<mapsto> ''u1_o1'']"
      "''c0de''" "''u1_o1''" "''u1''" "''o1''" sample_library
      "[(''access_token'', JStr ''tok123''), (''expires_in'', JInt 600)]" empty_world]
  by (simp add: sample_library_def sample_dumps_def sample_loads_def sample_token_response_def
      sample_token_text_def) blast

text \<open>
  Claim C2 as stated fails: the identifiers \<^verbatim>\<open>a&b\<close> and \<^verbatim>\<open>c\<close> are not empty and have no
  underscore, but the state is written into the URL unencoded, so the \<^verbatim>\<open>state\<close> query
  parameter of the returned URL is \<^verbatim>\<open>a\<close>, which does not split into the pair. The
  characters \<^verbatim>\<open>#\<close>, \<^verbatim>\<open>%\<close>, \<^verbatim>\<open>+\<close> and a TAB, LF or CR in an identifier change the
  parameter in the same way (the last three are deleted when the URL is read).
\<close>

theorem authorize_state_counterexample:
  "''a&b'' \<noteq> [] \<and> ''c'' \<noteq> [] \<and> CHR ''_'' \<notin> set ''a&b'' \<and> CHR ''_'' \<notin> set ''c'' \<and>
   authorize_hubspot sample_config ''a&b'' ''c'' =
     [(''authorization_url'', auth_url sample_config ''a&b'' ''c'')] \<and>
   query_param True (auth_url sample_config ''a&b'' ''c'') ''state'' = Some ''a'' \<and>
   query_param False (auth_url sample_config ''a&b'' ''c'') ''state'' = Some ''a'' \<and>
   split_py (CHR ''_'') ''a'' \<noteq> [''a&b'', ''c''] \<and>
   query_param True (auth_url sample_config ''a#b'' ''c'') ''state'' = Some ''a'' \<and>
   query_param True (auth_url sample_config ''a%41'' ''c'') ''state'' = Some ''aA_c'' \<and>
   query_param True (auth_url sample_config ''a+b'' ''c'') ''state'' = Some ''a b_c'' \<and>
   query_param True (auth_url sample_config [CHR ''a'', CHR 0x09, CHR ''b''] ''c'') ''state'' =
     Some ''ab_c'' \<and>
   query_param True (auth_url sample_config [CHR ''a'', CHR 0x0A, CHR ''b''] ''c'') ''state'' =
     Some ''ab_c'' \<and>
   query_param True (auth_url sample_config [CHR ''a'', CHR 0x0D, CHR ''b''] ''c'') ''state'' =
     Some ''ab_c''"
  by code_simp

text \<open>
  Claim C2, amended. For identifiers that contain neither the underscore nor any of the
  characters \<^verbatim>\<open>&\<close>, \<^verbatim>\<open>#\<close>, \<^verbatim>\<open>%\<close>, \<^verbatim>\<open>+\<close>, TAB, LF, CR (and a configured client
  id and redirect URI without \<^verbatim>\<open>#\<close>), the URL returned by \<open>authorize_hubspot\<close> has a
  \<^verbatim>\<open>state\<close> query parameter which, split on the underscore, is exactly the pair; this
  is the last value given for \<^verbatim>\<open>state\<close>, and the only one when client id and redirect
  URI have no \<^verbatim>\<open>&\<close>. It holds with and without \<^verbatim>\<open>keep_blank_values\<close>. That the
  identifiers are not empty is not needed.
\<close>

theorem authorize_state_roundtrip:
  assumes "CHR ''_'' \<notin> set user_id" "CHR ''_'' \<notin> set org_id"
    and "set user_id \<inter> {CHR ''&'', CHR ''#'', CHR ''%'', CHR ''+'', CHR 0x09, CHR 0x0A, CHR 0x0D} = {}"
    and "set org_id \<inter> {CHR ''&'', CHR ''#'', CHR ''%'', CHR ''+'', CHR 0x09, CHR 0x0A, CHR 0x0D} = {}"
    and "CHR ''#'' \<notin> set (HUBSPOT_CLIENT_ID cfg)" "CHR ''#'' \<notin> set (HUBSPOT_REDIRECT_URI cfg)"
  shows "\<exists>url state.
           authorize_hubspot cfg user_id org_id = [(''authorization_url'', url)] \<and>
           query_param keep_blank_values url ''state'' = Some state \<and>
           split_py (CHR ''_'') state = [user_id, org_id] \<and>
           (CHR ''&'' \<notin> set (HUBSPOT_CLIENT_ID cfg) \<and> CHR ''&'' \<notin> set (HUBSPOT_REDIRECT_URI cfg) \<longrightarrow>
              (\<exists>qs. url_query url = Some qs \<and>
                 query_values keep_blank_values qs ''state'' = [state]))"
proof -
  let ?st = "state_of user_id org_id"
  let ?x = "filter (\<lambda>c. \<not> unsafe c) (HUBSPOT_CLIENT_ID cfg)"
  let ?y = "filter (\<lambda>c. \<not> unsafe c) (HUBSPOT_REDIRECT_URI cfg)"
  let ?q = "''client_id='' @ ?x @ ''&'' @ ''redirect_uri='' @ ?y @ ''&'' @
      ''scope=crm.objects.contacts.read%20crm.objects.contacts.write''"
  have st: "CHR ''&'' \<notin> set ?st" "CHR ''%'' \<notin> set ?st" "CHR ''+'' \<notin> set ?st" "?st \<noteq> []"
    and hash: "CHR ''#'' \<notin> set ?st"
    using assms(3,4) by (auto simp: state_of_def)
  have safe: "list_all (\<lambda>c. \<not> unsafe c) ?st"
    using assms(3,4) by (auto simp: state_of_def unsafe_def list_all_iff)
  have query: "url_query (auth_url cfg user_id org_id) = Some (?q @ CHR ''&'' # ''state='' @ ?st)"
    unfolding auth_url_def by (rule url_query_auth_url [OF assms(5,6) hash safe])
  from query_values_last [OF st, of keep_blank_values ?q] obtain vs where
    "query_values keep_blank_values (?q @ CHR ''&'' # ''state='' @ ?st) ''state'' = vs @ [?st]"
    by blast
  with query have param: "query_param keep_blank_values (auth_url cfg user_id org_id) ''state'' = Some ?st"
    by (cases vs) (simp_all add: query_param_def)
  have split: "split_py (CHR ''_'') ?st = [user_id, org_id]"
    using split_py_pair [OF assms(1,2)] by (simp add: state_of_def)
  have only: "\<exists>qs. url_query (auth_url cfg user_id org_id) = Some qs \<and>
      query_values keep_blank_values qs ''state'' = [?st]"
    if "CHR ''&'' \<notin> set (HUBSPOT_CLIENT_ID cfg) \<and> CHR ''&'' \<notin> set (HUBSPOT_REDIRECT_URI cfg)"
  proof -
    from that have "CHR ''&'' \<notin> set ?x" "CHR ''&'' \<notin> set ?y" by simp_all
    from query_values_only [OF st this, of keep_blank_values] query show ?thesis by simp
  qed
  from param split only show ?thesis
    by (simp add: authorize_hubspot_def)
qed

text \<open>
  Witness for C2 (amended): \<^verbatim>\<open>TestUser\<close> and \<^verbatim>\<open>TestOrg\<close>.
\<close>

theorem authorize_state_roundtrip_witness:
  "CHR ''_'' \<notin> set ''TestUser'' \<and> CHR ''_'' \<notin> set ''TestOrg'' \<and>
   (\<exists>url state.
      authorize_hubspot sample_config ''TestUser'' ''TestOrg'' = [(''authorization_url'', url)] \<and>
      query_param True url ''state'' = Some state \<and>
      split_py (CHR ''_'') state = [''TestUser'', ''TestOrg''] \<and>
      (\<exists>qs. url_query url = Some qs \<and> query_values True qs ''state'' = [state]))"
  using authorize_state_roundtrip [of "''TestUser''" "''TestOrg''" sample_config True]
  by (simp add: sample_config_def)

text \<open>
  Claim C3 as stated fails: in the request \<^verbatim>\<open>?code=&state=abc\<close> the code parameter is
  present (and empty) and the state has one part, but the result is the
  \<^verbatim>\<open>Authorization code not found\<close> error, not \<^verbatim>\<open>Invalid state parameter\<close>: the guard is
  \<^verbatim>\<open>if not code\<close>.
\<close>

theorem callback_blank_code_counterexample:
  "blank_code_request ''code'' \<noteq> None \<and>
   blank_code_request ''state'' = Some ''abc'' \<and>
   length (split_py (CHR ''_'') ''abc'') \<noteq> 2 \<and>
   fst (oauth2callback_hubspot sample_library blank_code_request (Json sample_token_response) empty_world) =
     Return (Error (Text ''Authorization code not found'')) \<and>
   fst (oauth2callback_hubspot sample_library blank_code_request (Json sample_token_response) empty_world) \<noteq>
     Return (Error (Text ''Invalid state parameter''))"
  by (simp add: blank_code_request_def oauth2callback_hubspot_def)

text \<open>
  Claim C3, amended. If the code parameter is absent or empty the callback returns the
  \<^verbatim>\<open>Authorization code not found\<close> error (MissingAuthorizationCode); if the code is not
  empty and the state (the empty string when absent) does not split into exactly two parts
  it returns \<^verbatim>\<open>Invalid state parameter\<close> (InvalidState). In both cases the world is returned
  as it was: nothing is written to the store, nor to the log.
\<close>

theorem callback_rejections_leave_store:
  "(query_params ''code'' = None \<or> query_params ''code'' = Some [] \<longrightarrow>
      oauth2callback_hubspot lib query_params token_outcome w =
        (Return (Error (Text ''Authorization code not found'')), w)) \<and>
   (\<forall>code. query_params ''code'' = Some code \<and> code \<noteq> [] \<and>
      length (split_py (CHR ''_'') (case query_params ''state'' of None \<Rightarrow> [] | Some s \<Rightarrow> s)) \<noteq> 2 \<longrightarrow>
      oauth2callback_hubspot lib query_params token_outcome w =
        (Return (Error (Text ''Invalid state parameter'')), w))"
  by (auto simp: oauth2callback_hubspot_def not_two_parts)

text \<open>
  Witness for C3 (amended): a request without code, and the states \<^verbatim>\<open>a_b_c\<close> and
  \<^verbatim>\<open>abc\<close> of the spec.
\<close>

theorem callback_rejections_leave_store_witness:
  "oauth2callback_hubspot sample_library [''state'' \<mapsto> ''u_o''] (Json sample_token_response) empty_world =
        (Return (Error (Text ''Authorization code not found'')), empty_world) \<and>
   oauth2callback_hubspot sample_library [''code'' \<mapsto> ''c0de'', ''state'' \<mapsto> ''a_b_c''] (Json sample_token_response) empty_world =
        (Return (Error (Text ''Invalid state parameter'')), empty_world) \<and>
   oauth2callback_hubspot sample_library [''code'' \<mapsto> ''c0de'', ''state'' \<mapsto> ''abc''] (Json sample_token_response) empty_world =
        (Return (Error (Text ''Invalid state parameter'')), empty_world)"
  using callback_rejections_leave_store [of "[''state'' \<mapsto> ''u_o'']" sample_library "Json sample_token_response" empty_world]
    callback_rejections_leave_store [of "[''code'' \<mapsto> ''c0de'', ''state'' \<mapsto> ''a_b_c'']" sample_library "Json sample_token_response" empty_world]
    callback_rejections_leave_store [of "[''code'' \<mapsto> ''c0de'', ''state'' \<mapsto> ''abc'']" sample_library "Json sample_token_response" empty_world]
  by simp

text \<open>
  Claim C4 at failing inputs: the stored texts \<^verbatim>\<open>123\<close> and \<^verbatim>\<open>true\<close> parse and have no
  \<^verbatim>\<open>access_token\<close>, but \<open>get_hubspot_credentials\<close> does not return the NoCredentials
  error: the test \<^verbatim>\<open>"access_token" in credentials\<close> raises a \<^verbatim>\<open>TypeError\<close>, which
  nothing catches. (For a parsed object or array the claim holds.)
\<close>

theorem get_credentials_scalar_raises:
  "store number_world (redis_key_of ''u1'' ''o1'') = Some (''123'', JInt 600) \<and>
   json_loads sample_library ''123'' = Inr (JInt 123) \<and>
   get_hubspot_credentials sample_library ''u1'' ''o1'' number_world =
     (Raise (TypeError_not_iterable ''int''), number_world) \<and>
   store true_world (redis_key_of ''u1'' ''o1'') = Some (''true'', JInt 600) \<and>
   json_loads sample_library ''true'' = Inr (JBool True) \<and>
   get_hubspot_credentials sample_library ''u1'' ''o1'' true_world =
     (Raise (TypeError_not_iterable ''bool''), true_world)"
  by (simp add: number_world_def true_world_def redis_key_of_def sample_defs
      get_hubspot_credentials_def get_value_redis_def)

text \<open>
  Claim C5 as stated fails: with the unparseable text \<^verbatim>\<open>not json\<close> stored,
  \<open>get_hubspot_credentials\<close> returns the very value it returns when nothing is stored, so
  there is no signal distinct from NoCredentials.
\<close>

theorem get_credentials_unparseable_counterexample:
  "store corrupt_world (redis_key_of ''u1'' ''o1'') = Some (''not json'', JInt 600) \<and>
   json_loads sample_library ''not json'' = Inl JSONDecodeError \<and>
   store empty_world (redis_key_of ''u1'' ''o1'') = None \<and>
   fst (get_hubspot_credentials sample_library ''u1'' ''o1'' corrupt_world) =
     fst (get_hubspot_credentials sample_library ''u1'' ''o1'' empty_world)"
  by (simp add: corrupt_world_def redis_key_of_def sample_defs get_hubspot_credentials_def
      get_value_redis_def)

text \<open>
  Claim C5, amended. When the stored value is present and not parseable (it is empty, or
  \<^verbatim>\<open>json.loads\<close> rejects it with a \<^verbatim>\<open>JSONDecodeError\<close>), \<open>get_hubspot_credentials\<close>
  returns (it does not raise) the same \<^verbatim>\<open>No valid credentials found\<close> error it returns
  when no value is stored (world \<open>w0\<close>). The parse failure is told apart only by the log,
  which gets one error entry; an empty stored value is not parsed and nothing is logged.
\<close>

theorem get_credentials_unparseable:
  assumes "store w (redis_key_of user_id org_id) = Some (stored, expire)"
    and "stored = [] \<or> json_loads lib stored = Inl JSONDecodeError"
    and "store w0 (redis_key_of user_id org_id) = None"
  shows "get_hubspot_credentials lib user_id org_id w =
           (Return (Error (Text ''No valid credentials found. Please authorize HubSpot.'')),
            if stored = [] then w else w\<lparr>log := log w @ [Error_stored_credentials_unparseable]\<rparr>) \<and>
         get_hubspot_credentials lib user_id org_id w0 =
           (Return (Error (Text ''No valid credentials found. Please authorize HubSpot.'')), w0)"
  using assms
  by (auto simp: get_hubspot_credentials_def get_value_redis_def no_valid_credentials_def logger_def)

text \<open>
  Witness for C5 (amended): the store holding \<^verbatim>\<open>not json\<close>, the store holding the empty
  text, and the empty store.
\<close>

theorem get_credentials_unparseable_witness:
  "get_hubspot_credentials sample_library ''u1'' ''o1'' corrupt_world =
     (Return (Error (Text ''No valid credentials found. Please authorize HubSpot.'')),
      corrupt_world\<lparr>log := [Error_stored_credentials_unparseable]\<rparr>) \<and>
   get_hubspot_credentials sample_library ''u1'' ''o1'' blank_world =
     (Return (Error (Text ''No valid credentials found. Please authorize HubSpot.'')), blank_world) \<and>
   get_hubspot_credentials sample_library ''u1'' ''o1'' empty_world =
     (Return (Error (Text ''No valid credentials found. Please authorize HubSpot.'')), empty_world)"
  using get_credentials_unparseable [of corrupt_world "''u1''" "''o1''" "''not json''" "JInt 600"
      sample_library empty_world]
    get_credentials_unparseable [of blank_world "''u1''" "''o1''" "[]" "JInt 600"
      sample_library empty_world]
  by (simp add: corrupt_world_def blank_world_def redis_key_of_def sample_defs)

section \<open>Claims about the fetch\<close>

text \<open>
  Claim C6 at failing inputs: for a record whose \<^verbatim>\<open>createdate\<close> is \<^verbatim>\<open>not-a-date\<close> and
  whose \<^verbatim>\<open>lastmodifieddate\<close> is well formed, the parse failure on the first field keeps
  the second from being parsed and the record yields no Integration Item; the whole fetch
  returns an error, also for the well-formed record before it. A \<^verbatim>\<open>createdate\<close> that
  is present and null fails in the same way. Only an absent field is guarded
  (\<^verbatim>\<open>if "createdate" in props else None\<close>).
\<close>

theorem timestamp_failure_aborts_fetch:
  "fromisoformat sample_library (replace_Z ''not-a-date'') = None \<and>
   fromisoformat sample_library (replace_Z ''2023-01-01T00:00:00Z'') = Some (Datetime 2023 1 1 0 0 0 0) \<and>
   fst (get_items_hubspot sample_library sample_credentials
          (Json (JObj [(''results'', JArr [bad_date_contact])])) empty_world) =
     Error (Str_of (ValueError_isoformat ''not-a-date'')) \<and>
   fst (get_items_hubspot sample_library sample_credentials
          (Json (JObj [(''results'', JArr [jane_doe, bad_date_contact])])) empty_world) =
     Error (Str_of (ValueError_isoformat ''not-a-date'')) \<and>
   fst (get_items_hubspot sample_library sample_credentials
          (Json (JObj [(''results'', JArr [null_date_contact])])) empty_world) =
     Error (Str_of (AttributeError ''NoneType'' ''replace''))"
  by (simp add: sample_defs get_items_defs bad_date_contact_def jane_doe_def
      null_date_contact_def)

text \<open>
  Claim C7 at a failing input: for a record whose \<^verbatim>\<open>company\<close> property is present and null
  (what the provider sends for an unset property) the description is
  \<^verbatim>\<open>Contact at None\<close>, not \<^verbatim>\<open>Contact at No Company\<close>: \<^verbatim>\<open>props.get('company', 'No Company')\<close>
  falls back only when the key is absent.
\<close>

theorem description_null_company:
  "fst (get_items_hubspot sample_library sample_credentials
          (Json (JObj [(''results'', JArr [null_company_contact])])) empty_world) =
     Ok [null_company_item] \<and>
   map_of (metadata null_company_item) ''company'' = Some JNull \<and>
   map_of (metadata null_company_item) ''description'' = Some (JStr ''Contact at None'')"
  by (simp add: sample_defs get_items_defs null_company_contact_def null_company_item_def)




text \<open>
  Claim C9 at failing inputs: when the token request fails in transport
  (\<^verbatim>\<open>httpx.RequestError\<close>), or the token endpoint answers with JSON that is not an object,
  the callback raises instead of returning; so does \<open>get_hubspot_credentials\<close> when the
  stored text is \<^verbatim>\<open>null\<close>. Only \<open>get_items_hubspot\<close> has a handler for every exception.
\<close>

theorem callback_request_error_propagates:
  "oauth2callback_hubspot sample_library [''code'' \<mapsto> ''c0de'', ''state'' \<mapsto> ''u1_o1'']
     (Request_failed ''connection refused'') empty_world =
     (Raise (RequestError ''connection refused''), empty_world) \<and>
   oauth2callback_hubspot sample_library [''code'' \<mapsto> ''c0de'', ''state'' \<mapsto> ''u1_o1'']
     (Json (JArr [])) empty_world =
     (Raise (AttributeError ''list'' ''get''), empty_world) \<and>
   get_hubspot_credentials sample_library ''u1'' ''o1'' null_world =
     (Raise (TypeError_not_iterable ''NoneType''), null_world)"
  by (simp add: oauth2callback_hubspot_def get_hubspot_credentials_def get_value_redis_def
      redis_key_of_def null_world_def sample_defs)

text \<open>
  Claim C10. Every item of a successful fetch has a metadata dict with the same sixteen
  keys, in the same order, whatever the raw record carries; \<^verbatim>\<open>hubspot_id\<close> is null when
  the record has no \<^verbatim>\<open>id\<close>, and every key copied from a provider property is null when
  that property is absent from the record.
\<close>

theorem metadata_fixed_key_set:
  assumes "fst (get_items_hubspot lib credentials listing w) = Ok items" "item \<in> set items"
  shows "map fst (metadata item) =
           [''hubspot_id'', ''created_at'', ''updated_at'', ''company'', ''website'', ''address'',
            ''city'', ''state'', ''country'', ''phone'', ''mobile_phone'', ''job_title'',
            ''industry'', ''lifecycle_stage'', ''lead_status'', ''description''] \<and>
         (\<exists>c props. raw_data item = JObj c \<and>
            dict_get c ''properties'' (JObj []) = JObj props \<and>
            (map_of c ''id'' = None \<longrightarrow> map_of (metadata item) ''hubspot_id'' = Some JNull) \<and>
            (\<forall>(key, property)\<in>set metadata_sources.
               map_of props property = None \<longrightarrow> map_of (metadata item) key = Some JNull))"
proof -
  from get_items_hubspot_item [OF assms] obtain contact where "build_item lib contact = Inr item"
    by blast
  from build_item_Inr [OF this] obtain c props where
    c: "raw_data item = JObj c" "dict_get c ''properties'' (JObj []) = JObj props"
    and m: "metadata item = metadata_of lib c props" by auto
  have keys: "map fst (metadata item) =
           [''hubspot_id'', ''created_at'', ''updated_at'', ''company'', ''website'', ''address'',
            ''city'', ''state'', ''country'', ''phone'', ''mobile_phone'', ''job_title'',
            ''industry'', ''lifecycle_stage'', ''lead_status'', ''description'']"
    by (simp add: m metadata_of_def)
  have id: "map_of c ''id'' = None \<longrightarrow> map_of (metadata item) ''hubspot_id'' = Some JNull"
    by (simp add: m metadata_of_def dict_get_def)
  have nulls: "\<forall>(key, property)\<in>set metadata_sources.
      map_of props property = None \<longrightarrow> map_of (metadata item) key = Some JNull"
    by (simp add: m metadata_of_def metadata_sources_def dict_get_def)
  show ?thesis
  proof (intro conjI exI)
    show "raw_data item = JObj c" by (rule c(1))
    show "dict_get c ''properties'' (JObj []) = JObj props" by (rule c(2))
  qed (rule keys id nulls)+
qed

text \<open>
  Witness for C10: the spec's record and a record that carries nothing, not even an
  \<^verbatim>\<open>id\<close>.
\<close>

theorem metadata_fixed_key_set_witness:
  "fst (get_items_hubspot sample_library sample_credentials
          (Json (JObj [(''results'', JArr [jane_doe, bare_contact])])) empty_world) =
     Ok [jane_item, bare_item] \<and>
   map fst (metadata jane_item) = map fst (metadata bare_item) \<and>
   map_of (metadata jane_item) ''phone'' = Some JNull \<and>
   map_of (metadata bare_item) ''hubspot_id'' = Some JNull"
proof -
  have run: "fst (get_items_hubspot sample_library sample_credentials
          (Json (JObj [(''results'', JArr [jane_doe, bare_contact])])) empty_world) =
     Ok [jane_item, bare_item]"
    by (simp add: sample_defs get_items_defs jane_doe_def jane_item_def bare_contact_def
        bare_item_def)
  have in1: "jane_item \<in> set [jane_item, bare_item]"
    and in2: "bare_item \<in> set [jane_item, bare_item]" by simp_all
  note k1 = metadata_fixed_key_set [OF run in1]
  note k2 = metadata_fixed_key_set [OF run in2]
  from k1 k2 have keys: "map fst (metadata jane_item) = map fst (metadata bare_item)" by simp
  from k1 obtain c props where raw: "raw_data jane_item = JObj c"
    "dict_get c ''properties'' (JObj []) = JObj props"
    and nulls: "\<forall>(key, property)\<in>set metadata_sources.
               map_of props property = None \<longrightarrow> map_of (metadata jane_item) key = Some JNull"
    by blast
  from raw have absent: "map_of props ''phone'' = None"
    by (auto simp: jane_item_def jane_doe_def dict_get_def)
  have "(''phone'', ''phone'') \<in> set metadata_sources"
    by (simp add: metadata_sources_def)
  from bspec [OF nulls this] absent have phone: "map_of (metadata jane_item) ''phone'' = Some JNull"
    by simp
  from k2 have "\<exists>c'. raw_data bare_item = JObj c' \<and>
      (map_of c' ''id'' = None \<longrightarrow> map_of (metadata bare_item) ''hubspot_id'' = Some JNull)"
    by (elim conjE exE) (intro exI conjI)
  then have "map_of (metadata bare_item) ''hubspot_id'' = Some JNull"
    by (auto simp: bare_item_def bare_contact_def)
  with run keys phone show ?thesis by simp
qed

end
